theory Spec2Isabelle
  imports Main
begin

section \<open>Data model\<close>

text \<open>
  The authentication endpoints of \<^verbatim>\<open>app/routers/users.py\<close>. Every handler is a function of
  what the request can observe: the process configuration, the clock reading, the
  \<^verbatim>\<open>users\<close> table and the request body. A handler returns its HTTP outcome (an
  \<^verbatim>\<open>HTTPException\<close> on the left, the response on the right) together with the table as
  the request leaves it. Time is in whole seconds, the unit of the \<^verbatim>\<open>exp\<close> claim, and a
  request reads the clock once: \<open>now\<close> is both the time at which a presented token is
  decoded and the time at which a new token is issued.
\<close>

subsection \<open>JSON values and dictionaries\<close>

text \<open>
  The values a claims dictionary holds. \<open>JNull\<close> is Python's \<^verbatim>\<open>None\<close>;
  \<^verbatim>\<open>d.get(k)\<close> returns it for an absent key as well.
\<close>

datatype jval = JNull | JStr string | JInt int

type_synonym payload = "string \<rightharpoonup> jval"

definition dict_get :: "payload \<Rightarrow> string \<Rightarrow> jval" where
  "dict_get d k = (case d k of None \<Rightarrow> JNull | Some v \<Rightarrow> v)"

subsection \<open>Configuration (\<^verbatim>\<open>app.config\<close>)\<close>

text \<open>
  \<^verbatim>\<open>app.config\<close> is not among the sources; its constants are the fields of a record that
  every handler receives. The two lifetimes are in seconds, the unit of the \<^verbatim>\<open>exp\<close> claim.
\<close>

record config =
  SECRET_KEY :: string
  ALGORITHM :: string
  ACCESS_TOKEN_LIFETIME :: int
  REFRESH_TOKEN_LIFETIME :: int

subsection \<open>Password hashes (\<^verbatim>\<open>app.auth.hash_password\<close>, \<^verbatim>\<open>app.auth.verify_password\<close>)\<close>

text \<open>
  A stored hash string either carries a salt and a digest or is malformed. The digest
  function of the hashing library is a parameter \<open>kdf\<close> (salt, then plaintext); the salt
  that \<^verbatim>\<open>hash_password\<close> draws is an explicit argument.
\<close>

datatype hash_string = Hashed string string | MalformedHash string

text \<open>
  Modelled from the spec: \<^verbatim>\<open>app.auth.hash_password\<close> is not among the sources. Section 4.1:
  "\<^verbatim>\<open>hash(plaintext) -> hash_string\<close>: deterministic-safe, salted one-way hash".
\<close>

definition hash_password :: "(string \<Rightarrow> string \<Rightarrow> string) \<Rightarrow> string \<Rightarrow> string \<Rightarrow> hash_string" where
  "hash_password kdf salt plaintext = Hashed salt (kdf salt plaintext)"

text \<open>
  Modelled from the spec: \<^verbatim>\<open>app.auth.verify_password\<close> is not among the sources. Section 4.1:
  "\<^verbatim>\<open>verify(plaintext, hash_string) -> bool\<close>: true iff plaintext re-hashes to an equivalent
  digest under the stored salt/parameters", and "malformed hash string causes verification
  to return false, not to raise".
\<close>

definition verify_password :: "(string \<Rightarrow> string \<Rightarrow> string) \<Rightarrow> string \<Rightarrow> hash_string \<Rightarrow> bool" where
  "verify_password kdf plaintext h =
     (case h of
        Hashed salt d \<Rightarrow> kdf salt plaintext = d
      | MalformedHash _ \<Rightarrow> False)"

subsection \<open>Tokens (\<^verbatim>\<open>jwt.encode\<close>, \<^verbatim>\<open>jwt.decode\<close>)\<close>

text \<open>
  Modelled from the spec: the Token Codec is the PyJWT library, which is not among the
  sources. Section 4.2: "\<^verbatim>\<open>encode(claims, secret, algorithm) -> token_string\<close>: produces a
  compact signed representation; tamper-evident" and "\<^verbatim>\<open>decode(token_string, secret, algorithm)
  -> claims | fails\<close>: fails with \<^verbatim>\<open>ExpiredSignature\<close> when current time exceeds \<^verbatim>\<open>exp\<close>;
  fails with \<^verbatim>\<open>InvalidSignature\<close> when the signature does not verify or the structure is
  malformed".

  Token strings are symbolic: a string is either the signed representation of a claims
  dictionary under a key and an algorithm, or some other string (\<open>Garbage\<close>). The
  signature is checked before the expiry. A token without \<^verbatim>\<open>exp\<close> does not expire, and an
  \<^verbatim>\<open>exp\<close> that is no integer is a malformed structure. "Exceeds" is taken literally
  (\<open>exp < now\<close>); no theorem below depends on what happens at the instant \<open>now = exp\<close>.
\<close>

datatype token = Signed string string payload | Garbage string

text \<open>
  \<open>ExpiredSignatureError\<close> is \<^verbatim>\<open>jwt.ExpiredSignatureError\<close>; \<open>PyJWTError\<close> is every other
  exception of the library, which the handlers catch by the base class \<^verbatim>\<open>jwt.PyJWTError\<close>.
\<close>

datatype jwt_error = ExpiredSignatureError | PyJWTError

definition jwt_encode :: "payload \<Rightarrow> string \<Rightarrow> string \<Rightarrow> token" where
  "jwt_encode claims key alg = Signed key alg claims"

definition jwt_decode :: "token \<Rightarrow> string \<Rightarrow> string \<Rightarrow> int \<Rightarrow> jwt_error + payload" where
  "jwt_decode tok key alg now =
     (case tok of
        Garbage _ \<Rightarrow> Inl PyJWTError
      | Signed k a claims \<Rightarrow>
          if k \<noteq> key \<or> a \<noteq> alg then Inl PyJWTError
          else (case claims ''exp'' of
                  None \<Rightarrow> Inr claims
                | Some (JInt e) \<Rightarrow> if e < now then Inl ExpiredSignatureError else Inr claims
                | Some _ \<Rightarrow> Inl PyJWTError))"

text \<open>The claims a token string carries, and its \<^verbatim>\<open>exp\<close> claim, read without any check.\<close>

fun token_claims :: "token \<Rightarrow> payload" where
  "token_claims (Signed k a claims) = claims"
| "token_claims (Garbage s) = Map.empty"

definition token_exp :: "token \<Rightarrow> int option" where
  "token_exp tok = (case token_claims tok ''exp'' of Some (JInt e) \<Rightarrow> Some e | _ \<Rightarrow> None)"

subsection \<open>Token Issuer (\<^verbatim>\<open>app.auth.create_access_token\<close>, \<^verbatim>\<open>app.auth.create_refresh_token\<close>)\<close>

text \<open>
  Modelled from the spec: \<^verbatim>\<open>app.auth.create_access_token\<close> and
  \<^verbatim>\<open>app.auth.create_refresh_token\<close> are not among the sources. Section 4.3:
  "\<^verbatim>\<open>issue_access(identity) -> access_token\<close>: claims \<^verbatim>\<open>{sub: identity.email, role, id,
  token_type:"access"}\<close>, short lifetime" and "\<^verbatim>\<open>issue_refresh(identity) -> refresh_token\<close>:
  same subject fields, \<^verbatim>\<open>token_type:"refresh"\<close>, long lifetime"; Section 3: "\<^verbatim>\<open>exp\<close> is
  always strictly in the future at issuance time, using a fixed, configured lifetime for
  each token kind". The subject fields are the dictionary \<^verbatim>\<open>data\<close> that the handler passes.
\<close>

definition create_access_token :: "config \<Rightarrow> int \<Rightarrow> payload \<Rightarrow> token" where
  "create_access_token cfg now data =
     jwt_encode (data(''exp'' \<mapsto> JInt (now + ACCESS_TOKEN_LIFETIME cfg),
                      ''token_type'' \<mapsto> JStr ''access''))
       (SECRET_KEY cfg) (ALGORITHM cfg)"

definition create_refresh_token :: "config \<Rightarrow> int \<Rightarrow> payload \<Rightarrow> token" where
  "create_refresh_token cfg now data =
     jwt_encode (data(''exp'' \<mapsto> JInt (now + REFRESH_TOKEN_LIFETIME cfg),
                      ''token_type'' \<mapsto> JStr ''refresh''))
       (SECRET_KEY cfg) (ALGORITHM cfg)"

subsection \<open>The \<^verbatim>\<open>users\<close> table and the request bodies\<close>

text \<open>
  \<^verbatim>\<open>app.models.users.User\<close> with the columns the handlers read and write. The column
  \<^verbatim>\<open>id\<close> is \<open>id_pk\<close> here. The table is the list of its rows in insertion order, and
  \<^verbatim>\<open>result.first()\<close> is the first row that satisfies the \<^verbatim>\<open>where\<close> clause.
\<close>

record UserCreate =
  email :: string
  password :: string
  role :: string

record OAuth2PasswordRequestForm =
  username :: string
  password :: string

record RefreshTokenRequest =
  refresh_token :: token

record UserModel =
  id_pk :: int
  email :: string
  hashed_password :: hash_string
  is_active :: bool
  role :: string

type_synonym db = "UserModel list"

subsection \<open>HTTP outcomes\<close>

datatype HTTPException = HTTPException nat string "(string \<times> string) list"

text \<open>
  A field of a JSON response body: a token string or a plain string.
\<close>

datatype field = Tok token | Str string

record 'a response =
  status_code :: nat
  content :: 'a

type_synonym 'a outcome = "(HTTPException + 'a response) \<times> db"

section \<open>The handlers of \<^verbatim>\<open>app/routers/users.py\<close>\<close>

subsection \<open>\<^verbatim>\<open>create_user\<close> (POST /users/)\<close>

text \<open>
  What one insert takes from outside the handler: the salt the hasher draws, the primary key
  the database assigns to the new row, and the column default of \<^verbatim>\<open>is_active\<close> (declared in
  \<^verbatim>\<open>app.models.users\<close>, which is not among the sources).
\<close>

record insert_env =
  salt :: string
  new_id :: int
  default_is_active :: bool

text \<open>
  The duplicate check selects by \<^verbatim>\<open>UserModel.email == user.email\<close> alone. The response is
  the new row with status 201 (the route's \<^verbatim>\<open>status_code\<close>); \<^verbatim>\<open>db.add\<close> and
  \<^verbatim>\<open>db.commit\<close> append the row to the table.
\<close>

definition create_user ::
  "(string \<Rightarrow> string \<Rightarrow> string) \<Rightarrow> insert_env \<Rightarrow> db \<Rightarrow> UserCreate \<Rightarrow> UserModel outcome" where
  "create_user kdf env db user =
     (case find (\<lambda>u. UserModel.email u = UserCreate.email user) db of
        Some _ \<Rightarrow> (Inl (HTTPException 409 ''Email already registered'' []), db)
      | None \<Rightarrow>
          (let db_user = \<lparr>id_pk = new_id env,
                          UserModel.email = UserCreate.email user,
                          hashed_password = hash_password kdf (salt env) (UserCreate.password user),
                          is_active = default_is_active env,
                          UserModel.role = UserCreate.role user\<rparr>
           in (Inr \<lparr>status_code = 201, content = db_user\<rparr>, db @ [db_user])))"

subsection \<open>\<^verbatim>\<open>login\<close> (POST /users/token)\<close>

definition login_exception :: HTTPException where
  "login_exception =
     HTTPException 401 ''Incorrect email or password'' [(''WWW-Authenticate'', ''Bearer'')]"

text \<open>The dictionary \<^verbatim>\<open>{"sub": user.email, "role": user.role, "id": user.id}\<close>.\<close>

definition token_data :: "UserModel \<Rightarrow> payload" where
  "token_data user =
     [''sub'' \<mapsto> JStr (UserModel.email user),
      ''role'' \<mapsto> JStr (UserModel.role user),
      ''id'' \<mapsto> JInt (id_pk user)]"

text \<open>
  The query filters on the email and on \<^verbatim>\<open>is_active == True\<close>;
  \<^verbatim>\<open>not user or not verify_password(...)\<close> evaluates the password only for a row found.
\<close>

definition login ::
  "(string \<Rightarrow> string \<Rightarrow> string) \<Rightarrow> config \<Rightarrow> int \<Rightarrow> db \<Rightarrow> OAuth2PasswordRequestForm
     \<Rightarrow> (string \<rightharpoonup> field) outcome" where
  "login kdf cfg now db form_data =
     (case find (\<lambda>u. UserModel.email u = username form_data \<and> is_active u) db of
        None \<Rightarrow> (Inl login_exception, db)
      | Some user \<Rightarrow>
          if \<not> verify_password kdf (OAuth2PasswordRequestForm.password form_data)
                 (hashed_password user)
          then (Inl login_exception, db)
          else
            (let access_token = create_access_token cfg now (token_data user);
                 refresh_token = create_refresh_token cfg now (token_data user)
             in (Inr \<lparr>status_code = 200,
                      content = [''access_token'' \<mapsto> Tok access_token,
                                 ''refresh_token'' \<mapsto> Tok refresh_token,
                                 ''token_type'' \<mapsto> Str ''bearer'']\<rparr>, db)))"

subsection \<open>\<^verbatim>\<open>refresh_access_token\<close> (POST /users/access-token/refresh)\<close>

definition credentials_exception :: HTTPException where
  "credentials_exception =
     HTTPException 401 ''Could not validate refresh token'' [(''WWW-Authenticate'', ''Bearer'')]"

definition expired_exception :: HTTPException where
  "expired_exception =
     HTTPException 401 ''Refresh token has expired'' [(''WWW-Authenticate'', ''Bearer'')]"

text \<open>The detail is \<^verbatim>\<open>Invalid token type: expected 'refresh'\<close>.\<close>

definition token_type_exception :: HTTPException where
  "token_type_exception =
     HTTPException 401
       (''Invalid token type: expected '' @ [CHR 0x27] @ ''refresh'' @ [CHR 0x27])
       [(''WWW-Authenticate'', ''Bearer'')]"

text \<open>
  The \<^verbatim>\<open>HTTPException\<close>s raised inside the \<^verbatim>\<open>try\<close> block are no \<^verbatim>\<open>jwt.PyJWTError\<close>, so
  neither \<^verbatim>\<open>except\<close> clause catches them.
\<close>

definition refresh_access_token ::
  "config \<Rightarrow> int \<Rightarrow> db \<Rightarrow> RefreshTokenRequest \<Rightarrow> (string \<rightharpoonup> field) outcome" where
  "refresh_access_token cfg now db body =
     (case jwt_decode (refresh_token body) (SECRET_KEY cfg) (ALGORITHM cfg) now of
        Inl ExpiredSignatureError \<Rightarrow> (Inl expired_exception, db)
      | Inl PyJWTError \<Rightarrow> (Inl credentials_exception, db)
      | Inr payload \<Rightarrow>
          (let email = dict_get payload ''sub'';
               token_type = dict_get payload ''token_type''
           in if token_type \<noteq> JStr ''refresh'' then (Inl token_type_exception, db)
              else if email = JNull then (Inl credentials_exception, db)
              else (case find (\<lambda>u. JStr (UserModel.email u) = email \<and> is_active u) db of
                      None \<Rightarrow> (Inl credentials_exception, db)
                    | Some user \<Rightarrow>
                        (let new_access_token = create_access_token cfg now (token_data user)
                         in (Inr \<lparr>status_code = 200,
                                  content = [''access_token'' \<mapsto> Tok new_access_token,
                                             ''token_type'' \<mapsto> Str ''bearer'']\<rparr>, db)))))"

subsection \<open>\<^verbatim>\<open>rotate_refresh_token\<close> (POST /users/refresh-token/rotate)\<close>

text \<open>
  Both \<^verbatim>\<open>except\<close> clauses and the combined check
  \<^verbatim>\<open>email is None or token_type != "refresh"\<close> raise \<^verbatim>\<open>credentials_exception\<close>.
\<close>

definition rotate_refresh_token ::
  "config \<Rightarrow> int \<Rightarrow> db \<Rightarrow> RefreshTokenRequest \<Rightarrow> (string \<rightharpoonup> field) outcome" where
  "rotate_refresh_token cfg now db body =
     (let old_refresh_token = refresh_token body
      in case jwt_decode old_refresh_token (SECRET_KEY cfg) (ALGORITHM cfg) now of
           Inl ExpiredSignatureError \<Rightarrow> (Inl credentials_exception, db)
         | Inl PyJWTError \<Rightarrow> (Inl credentials_exception, db)
         | Inr payload \<Rightarrow>
             (let email = dict_get payload ''sub'';
                  token_type = dict_get payload ''token_type''
              in if email = JNull \<or> token_type \<noteq> JStr ''refresh''
                 then (Inl credentials_exception, db)
                 else (case find (\<lambda>u. JStr (UserModel.email u) = email \<and> is_active u) db of
                         None \<Rightarrow> (Inl credentials_exception, db)
                       | Some user \<Rightarrow>
                           (let new_refresh_token =
                                  create_refresh_token cfg now (token_data user)
                            in (Inr \<lparr>status_code = 200,
                                     content = [''refresh_token'' \<mapsto> Tok new_refresh_token,
                                                ''token_type'' \<mapsto> Str ''bearer'']\<rparr>, db)))))"

subsection \<open>Reading an outcome\<close>

text \<open>The token under key \<open>k\<close> of a successful response body, if there is one.\<close>

definition new_token :: "string \<Rightarrow> (string \<rightharpoonup> field) outcome \<Rightarrow> token option" where
  "new_token k out =
     (case fst out of
        Inl _ \<Rightarrow> None
      | Inr r \<Rightarrow> (case content r k of Some (Tok t) \<Rightarrow> Some t | _ \<Rightarrow> None))"

section \<open>Example data\<close>

text \<open>
  A toy digest function, a configuration (30 minutes and 7 days), and a table with an
  active seller and a deactivated buyer.
\<close>

definition kdf0 :: "string \<Rightarrow> string \<Rightarrow> string" where
  "kdf0 s p = s @ p"

definition cfg0 :: config where
  "cfg0 = \<lparr>SECRET_KEY = ''k'', ALGORITHM = ''HS256'',
            ACCESS_TOKEN_LIFETIME = 1800, REFRESH_TOKEN_LIFETIME = 604800\<rparr>"

definition alice :: UserModel where
  "alice = \<lparr>id_pk = 7, UserModel.email = ''a@x'',
             hashed_password = Hashed ''s1'' ''s1pw'',
             is_active = True, UserModel.role = ''seller''\<rparr>"

definition bob :: UserModel where
  "bob = \<lparr>id_pk = 2, UserModel.email = ''b@x'',
           hashed_password = Hashed ''s2'' ''s2pw'',
           is_active = False, UserModel.role = ''buyer''\<rparr>"

definition db0 :: db where
  "db0 = [alice, bob]"

text \<open>
  The refresh token a login of the seller at time 1000 issues, and a signed claims
  dictionary with the given subject, role, type and expiry (and id 1).
\<close>

definition refresh0 :: token where
  "refresh0 = create_refresh_token cfg0 1000 (token_data alice)"

definition mk_token :: "string \<Rightarrow> jval \<Rightarrow> string \<Rightarrow> string \<Rightarrow> int \<Rightarrow> token" where
  "mk_token key sub r ty e =
     Signed key ''HS256''
       [''sub'' \<mapsto> sub, ''role'' \<mapsto> JStr r, ''id'' \<mapsto> JInt 1,
        ''exp'' \<mapsto> JInt e, ''token_type'' \<mapsto> JStr ty]"

section \<open>Shared facts\<close>

lemma exceptions_distinct:
  "expired_exception \<noteq> credentials_exception"
  "credentials_exception \<noteq> token_type_exception"
  "expired_exception \<noteq> token_type_exception"
  by (simp_all add: expired_exception_def credentials_exception_def token_type_exception_def)

lemma no_active_row:
  "\<forall>u\<in>set db. JStr (UserModel.email u) = e \<longrightarrow> \<not> is_active u \<Longrightarrow>
   find (\<lambda>u. JStr (UserModel.email u) = e \<and> is_active u) db = None"
  by (auto simp: find_None_iff)

lemma jwt_decode_expired:
  "c ''exp'' = Some (JInt e) \<Longrightarrow> e < now \<Longrightarrow>
   jwt_decode (Signed key alg c) key alg now = Inl ExpiredSignatureError"
  by (simp add: jwt_decode_def)

text \<open>What a successful decode and a successful handler call tell about their inputs.\<close>

lemma jwt_decode_Inr:
  "jwt_decode tok key alg now = Inr p \<Longrightarrow> tok = Signed key alg p"
  by (cases tok) (auto simp: jwt_decode_def split: if_splits option.splits jval.splits)

lemma refresh_access_token_Inr:
  assumes "refresh_access_token cfg now db body = (Inr r, db')"
  shows "\<exists>p user. jwt_decode (refresh_token body) (SECRET_KEY cfg) (ALGORITHM cfg) now = Inr p
           \<and> dict_get p ''sub'' \<noteq> JNull \<and> dict_get p ''token_type'' = JStr ''refresh''
           \<and> find (\<lambda>u. JStr (UserModel.email u) = dict_get p ''sub'' \<and> is_active u) db = Some user
           \<and> r = \<lparr>status_code = 200,
                   content = [''access_token'' \<mapsto> Tok (create_access_token cfg now (token_data user)),
                              ''token_type'' \<mapsto> Str ''bearer'']\<rparr>
           \<and> db' = db"
proof (cases "jwt_decode (refresh_token body) (SECRET_KEY cfg) (ALGORITHM cfg) now")
  case (Inl err)
  with assms show ?thesis
    by (cases err) (simp_all add: refresh_access_token_def)
next
  case (Inr p)
  show ?thesis
  proof (cases "dict_get p ''sub'' = JNull \<or> dict_get p ''token_type'' \<noteq> JStr ''refresh''")
    case True
    with assms Inr show ?thesis
      by (auto simp: refresh_access_token_def split: if_splits)
  next
    case False
    show ?thesis
    proof (cases "find (\<lambda>u. JStr (UserModel.email u) = dict_get p ''sub'' \<and> is_active u) db")
      case None
      with assms Inr False show ?thesis
        by (simp add: refresh_access_token_def)
    next
      case (Some user)
      with assms Inr False show ?thesis
        by (simp add: refresh_access_token_def)
    qed
  qed
qed

lemma rotate_refresh_token_Inr:
  assumes "rotate_refresh_token cfg now db body = (Inr r, db')"
  shows "\<exists>p user. jwt_decode (refresh_token body) (SECRET_KEY cfg) (ALGORITHM cfg) now = Inr p
           \<and> dict_get p ''sub'' \<noteq> JNull \<and> dict_get p ''token_type'' = JStr ''refresh''
           \<and> find (\<lambda>u. JStr (UserModel.email u) = dict_get p ''sub'' \<and> is_active u) db = Some user
           \<and> r = \<lparr>status_code = 200,
                   content = [''refresh_token'' \<mapsto> Tok (create_refresh_token cfg now (token_data user)),
                              ''token_type'' \<mapsto> Str ''bearer'']\<rparr>
           \<and> db' = db"
proof (cases "jwt_decode (refresh_token body) (SECRET_KEY cfg) (ALGORITHM cfg) now")
  case (Inl err)
  with assms show ?thesis
    by (cases err) (simp_all add: rotate_refresh_token_def)
next
  case (Inr p)
  show ?thesis
  proof (cases "dict_get p ''sub'' = JNull \<or> dict_get p ''token_type'' \<noteq> JStr ''refresh''")
    case True
    with assms Inr show ?thesis
      by (simp add: rotate_refresh_token_def)
  next
    case False
    show ?thesis
    proof (cases "find (\<lambda>u. JStr (UserModel.email u) = dict_get p ''sub'' \<and> is_active u) db")
      case None
      with assms Inr False show ?thesis
        by (simp add: rotate_refresh_token_def)
    next
      case (Some user)
      with assms Inr False show ?thesis
        by (simp add: rotate_refresh_token_def)
    qed
  qed
qed

lemma token_exp_create_refresh_token:
  "token_exp (create_refresh_token cfg now data) = Some (now + REFRESH_TOKEN_LIFETIME cfg)"
  by (simp add: token_exp_def create_refresh_token_def jwt_encode_def)

lemma token_claims_create_access_token:
  "token_claims (create_access_token cfg now (token_data user)) ''sub'' = Some (JStr (UserModel.email user))"
  "token_claims (create_access_token cfg now (token_data user)) ''role'' = Some (JStr (UserModel.role user))"
  "token_claims (create_access_token cfg now (token_data user)) ''id'' = Some (JInt (id_pk user))"
  by (simp_all add: create_access_token_def jwt_encode_def token_data_def)

lemma token_claims_create_refresh_token:
  "token_claims (create_refresh_token cfg now (token_data user)) ''sub'' = Some (JStr (UserModel.email user))"
  "token_claims (create_refresh_token cfg now (token_data user)) ''role'' = Some (JStr (UserModel.role user))"
  "token_claims (create_refresh_token cfg now (token_data user)) ''id'' = Some (JInt (id_pk user))"
  by (simp_all add: create_refresh_token_def jwt_encode_def token_data_def)

section \<open>Refreshing an access token\<close>

text \<open>
  C1. For every refresh token presented to \<^verbatim>\<open>refresh_access_token\<close>: when decoding fails
  because the token is past its \<^verbatim>\<open>exp\<close>, the handler raises the expiry error; when decoding
  fails for any other reason (signature, structure), it raises the generic credentials error;
  when decoding succeeds and \<^verbatim>\<open>token_type\<close> is not \<^verbatim>\<open>"refresh"\<close>, it raises the
  token-type error, whatever the subject is; when the type is right and the subject is
  missing or no active row has that email, it raises the generic credentials error. A token
  signed under the configured key whose \<^verbatim>\<open>exp\<close> is past raises the expiry error whatever
  its \<^verbatim>\<open>token_type\<close> is. The three errors are pairwise different, and the table is left as
  it was.
\<close>

theorem refresh_access_token_errors:
  "(jwt_decode (refresh_token body) (SECRET_KEY cfg) (ALGORITHM cfg) now = Inl ExpiredSignatureError
      \<longrightarrow> refresh_access_token cfg now db body = (Inl expired_exception, db))
   \<and> (jwt_decode (refresh_token body) (SECRET_KEY cfg) (ALGORITHM cfg) now = Inl PyJWTError
      \<longrightarrow> refresh_access_token cfg now db body = (Inl credentials_exception, db))
   \<and> (\<forall>p. jwt_decode (refresh_token body) (SECRET_KEY cfg) (ALGORITHM cfg) now = Inr p
          \<and> dict_get p ''token_type'' \<noteq> JStr ''refresh''
      \<longrightarrow> refresh_access_token cfg now db body = (Inl token_type_exception, db))
   \<and> (\<forall>p. jwt_decode (refresh_token body) (SECRET_KEY cfg) (ALGORITHM cfg) now = Inr p
          \<and> dict_get p ''token_type'' = JStr ''refresh''
          \<and> (dict_get p ''sub'' = JNull
              \<or> (\<forall>u\<in>set db. JStr (UserModel.email u) = dict_get p ''sub'' \<longrightarrow> \<not> is_active u))
      \<longrightarrow> refresh_access_token cfg now db body = (Inl credentials_exception, db))
   \<and> (\<forall>c e. refresh_token body = Signed (SECRET_KEY cfg) (ALGORITHM cfg) c
          \<and> c ''exp'' = Some (JInt e) \<and> e < now
      \<longrightarrow> refresh_access_token cfg now db body = (Inl expired_exception, db))
   \<and> expired_exception \<noteq> credentials_exception
   \<and> credentials_exception \<noteq> token_type_exception
   \<and> expired_exception \<noteq> token_type_exception"
  using no_active_row [of db]
  by (auto simp: refresh_access_token_def Let_def exceptions_distinct jwt_decode_expired)

text \<open>
  At time 2000, with the example table: an expired token of type \<^verbatim>\<open>access\<close> is reported as
  expired; a string that is no token and a token signed under another key are reported with
  the generic error; a live \<^verbatim>\<open>access\<close> token without subject is reported as a wrong type;
  a live refresh token without subject, and one for the deactivated buyer, are reported with
  the generic error.
\<close>

theorem refresh_access_token_errors_witness:
  "refresh_access_token cfg0 2000 db0
      \<lparr>refresh_token = mk_token ''k'' (JStr ''a@x'') ''seller'' ''access'' 1000\<rparr>
     = (Inl expired_exception, db0)
   \<and> refresh_access_token cfg0 2000 db0 \<lparr>refresh_token = Garbage ''abc''\<rparr>
     = (Inl credentials_exception, db0)
   \<and> refresh_access_token cfg0 2000 db0
      \<lparr>refresh_token = mk_token ''other'' (JStr ''a@x'') ''seller'' ''refresh'' 3000\<rparr>
     = (Inl credentials_exception, db0)
   \<and> refresh_access_token cfg0 2000 db0
      \<lparr>refresh_token = mk_token ''k'' JNull ''seller'' ''access'' 3000\<rparr>
     = (Inl token_type_exception, db0)
   \<and> refresh_access_token cfg0 2000 db0
      \<lparr>refresh_token = mk_token ''k'' JNull ''seller'' ''refresh'' 3000\<rparr>
     = (Inl credentials_exception, db0)
   \<and> refresh_access_token cfg0 2000 db0
      \<lparr>refresh_token = mk_token ''k'' (JStr ''b@x'') ''buyer'' ''refresh'' 3000\<rparr>
     = (Inl credentials_exception, db0)"
proof -
  let ?go = "\<lambda>t. refresh_access_token cfg0 2000 db0 \<lparr>refresh_token = t\<rparr>"
  let ?dec = "\<lambda>t. jwt_decode t (SECRET_KEY cfg0) (ALGORITHM cfg0) 2000"
  note T = refresh_access_token_errors [where cfg = cfg0 and now = 2000 and db = db0]
  have d1: "?dec (mk_token ''k'' (JStr ''a@x'') ''seller'' ''access'' 1000) = Inl ExpiredSignatureError"
    by (simp add: jwt_decode_def mk_token_def cfg0_def)
  have d2: "?dec (Garbage ''abc'') = Inl PyJWTError"
    by (simp add: jwt_decode_def)
  have d3: "?dec (mk_token ''other'' (JStr ''a@x'') ''seller'' ''refresh'' 3000) = Inl PyJWTError"
    by (simp add: jwt_decode_def mk_token_def cfg0_def)
  have d4: "?dec (mk_token ''k'' JNull ''seller'' ''access'' 3000)
              = Inr (token_claims (mk_token ''k'' JNull ''seller'' ''access'' 3000))
            \<and> dict_get (token_claims (mk_token ''k'' JNull ''seller'' ''access'' 3000)) ''token_type''
              \<noteq> JStr ''refresh''"
    by (simp add: jwt_decode_def mk_token_def cfg0_def dict_get_def)
  have d5: "?dec (mk_token ''k'' JNull ''seller'' ''refresh'' 3000)
              = Inr (token_claims (mk_token ''k'' JNull ''seller'' ''refresh'' 3000))
            \<and> dict_get (token_claims (mk_token ''k'' JNull ''seller'' ''refresh'' 3000)) ''token_type''
              = JStr ''refresh''
            \<and> (dict_get (token_claims (mk_token ''k'' JNull ''seller'' ''refresh'' 3000)) ''sub'' = JNull
               \<or> (\<forall>u\<in>set db0. JStr (UserModel.email u)
                     = dict_get (token_claims (mk_token ''k'' JNull ''seller'' ''refresh'' 3000)) ''sub''
                    \<longrightarrow> \<not> is_active u))"
    by (simp add: jwt_decode_def mk_token_def cfg0_def dict_get_def)
  have d6: "?dec (mk_token ''k'' (JStr ''b@x'') ''buyer'' ''refresh'' 3000)
              = Inr (token_claims (mk_token ''k'' (JStr ''b@x'') ''buyer'' ''refresh'' 3000))
            \<and> dict_get (token_claims (mk_token ''k'' (JStr ''b@x'') ''buyer'' ''refresh'' 3000)) ''token_type''
              = JStr ''refresh''
            \<and> (dict_get (token_claims (mk_token ''k'' (JStr ''b@x'') ''buyer'' ''refresh'' 3000)) ''sub'' = JNull
               \<or> (\<forall>u\<in>set db0. JStr (UserModel.email u)
                     = dict_get (token_claims (mk_token ''k'' (JStr ''b@x'') ''buyer'' ''refresh'' 3000)) ''sub''
                    \<longrightarrow> \<not> is_active u))"
    by (simp add: jwt_decode_def mk_token_def cfg0_def dict_get_def db0_def alice_def bob_def)
  show ?thesis
    using T [of "\<lparr>refresh_token = mk_token ''k'' (JStr ''a@x'') ''seller'' ''access'' 1000\<rparr>"]
          T [of "\<lparr>refresh_token = Garbage ''abc''\<rparr>"]
          T [of "\<lparr>refresh_token = mk_token ''other'' (JStr ''a@x'') ''seller'' ''refresh'' 3000\<rparr>"]
          T [of "\<lparr>refresh_token = mk_token ''k'' JNull ''seller'' ''access'' 3000\<rparr>"]
          T [of "\<lparr>refresh_token = mk_token ''k'' JNull ''seller'' ''refresh'' 3000\<rparr>"]
          T [of "\<lparr>refresh_token = mk_token ''k'' (JStr ''b@x'') ''buyer'' ''refresh'' 3000\<rparr>"]
          d1 d2 d3 d4 d5 d6
    by (simp del: token_claims.simps)
qed

text \<open>
  C4. \<^verbatim>\<open>refresh_access_token\<close> is non-destructive. A successful call leaves the table as it
  was and returns a body with exactly the keys \<^verbatim>\<open>access_token\<close> and \<^verbatim>\<open>token_type\<close>, the
  former a token. The presented refresh token stays valid: a second call with the same token
  on the table the first call left, at any time \<open>now'\<close> before the token's \<^verbatim>\<open>exp\<close>, succeeds
  as well.
\<close>

theorem refresh_access_token_nondestructive:
  assumes "refresh_access_token cfg now db body = (Inr r, db')"
    and "\<forall>e. token_exp (refresh_token body) = Some e \<longrightarrow> now' < e"
  shows "db' = db
         \<and> dom (content r) = {''access_token'', ''token_type''}
         \<and> (\<exists>t. content r ''access_token'' = Some (Tok t))
         \<and> (\<exists>r'. refresh_access_token cfg now' db' body = (Inr r', db'))"
proof (cases "refresh_token body")
  case (Garbage s)
  with assms(1) show ?thesis
    by (simp add: refresh_access_token_def jwt_decode_def)
next
  case (Signed k a c)
  from assms(1) Signed have key: "k = SECRET_KEY cfg \<and> a = ALGORITHM cfg"
    by (auto simp: refresh_access_token_def jwt_decode_def split: if_splits)
  from assms(1) Signed key have dec: "jwt_decode (refresh_token body) (SECRET_KEY cfg) (ALGORITHM cfg) now = Inr c"
    by (auto simp: refresh_access_token_def jwt_decode_def split: if_splits option.splits jval.splits)
  from dec Signed key assms(2)
  have dec': "jwt_decode (refresh_token body) (SECRET_KEY cfg) (ALGORITHM cfg) now' = Inr c"
    by (auto simp: jwt_decode_def token_exp_def split: if_splits option.splits jval.splits)
  from assms(1) dec dec' show ?thesis
    by (auto simp: refresh_access_token_def Let_def split: if_splits option.splits)
qed

text \<open>
  The refresh token issued at time 1000 expires at 605800; it is accepted at time 2000 and
  again at time 5000.
\<close>

theorem refresh_access_token_nondestructive_witness:
  "refresh_access_token cfg0 2000 db0 \<lparr>refresh_token = refresh0\<rparr>
     = (Inr \<lparr>status_code = 200,
             content = [''access_token'' \<mapsto> Tok (create_access_token cfg0 2000 (token_data alice)),
                        ''token_type'' \<mapsto> Str ''bearer'']\<rparr>, db0)
   \<and> token_exp refresh0 = Some 605800
   \<and> (\<exists>r'. refresh_access_token cfg0 5000 db0 \<lparr>refresh_token = refresh0\<rparr> = (Inr r', db0))"
proof -
  have h1: "refresh_access_token cfg0 2000 db0 \<lparr>refresh_token = refresh0\<rparr>
     = (Inr \<lparr>status_code = 200,
             content = [''access_token'' \<mapsto> Tok (create_access_token cfg0 2000 (token_data alice)),
                        ''token_type'' \<mapsto> Str ''bearer'']\<rparr>, db0)"
    by (simp add: refresh_access_token_def refresh0_def create_refresh_token_def jwt_encode_def
        jwt_decode_def cfg0_def token_data_def dict_get_def db0_def alice_def)
  have e: "token_exp refresh0 = Some 605800"
    by (simp add: token_exp_def refresh0_def create_refresh_token_def jwt_encode_def cfg0_def)
  have h2: "\<forall>e. token_exp (refresh_token \<lparr>refresh_token = refresh0\<rparr>) = Some e \<longrightarrow> 5000 < e"
    by (simp add: e)
  show ?thesis
    using refresh_access_token_nondestructive [OF h1 h2] h1 e by simp
qed

section \<open>Rotating a refresh token\<close>

text \<open>
  C2, as stated, fails. It says that \<^verbatim>\<open>rotate_refresh_token\<close> reports a token of another type
  with the token-type error and an expired token with the expiry error, as
  \<^verbatim>\<open>refresh_access_token\<close> does. At time 2000, a live token of type \<^verbatim>\<open>access\<close> is rejected
  by \<^verbatim>\<open>refresh_access_token\<close> with the token-type error and by \<^verbatim>\<open>rotate_refresh_token\<close>
  with another error; a refresh token expired at 1000 is rejected by the former with the
  expiry error and by the latter with another error.
\<close>

theorem rotate_refresh_token_outcomes_counterexample:
  "fst (refresh_access_token cfg0 2000 db0
          \<lparr>refresh_token = mk_token ''k'' (JStr ''a@x'') ''seller'' ''access'' 3000\<rparr>)
     = Inl token_type_exception
   \<and> fst (rotate_refresh_token cfg0 2000 db0
          \<lparr>refresh_token = mk_token ''k'' (JStr ''a@x'') ''seller'' ''access'' 3000\<rparr>)
     \<noteq> Inl token_type_exception
   \<and> fst (refresh_access_token cfg0 2000 db0
          \<lparr>refresh_token = mk_token ''k'' (JStr ''a@x'') ''seller'' ''refresh'' 1000\<rparr>)
     = Inl expired_exception
   \<and> fst (rotate_refresh_token cfg0 2000 db0
          \<lparr>refresh_token = mk_token ''k'' (JStr ''a@x'') ''seller'' ''refresh'' 1000\<rparr>)
     \<noteq> Inl expired_exception"
  by (simp add: refresh_access_token_def rotate_refresh_token_def jwt_decode_def mk_token_def
      cfg0_def dict_get_def exceptions_distinct exceptions_distinct [symmetric])

text \<open>
  C2, amended. \<^verbatim>\<open>rotate_refresh_token\<close> rejects exactly the requests that
  \<^verbatim>\<open>refresh_access_token\<close> rejects, and every rejection is the generic credentials error
  (401, "Could not validate refresh token") with the table left as it was. In particular a
  token whose \<^verbatim>\<open>token_type\<close> is not \<^verbatim>\<open>"refresh"\<close> is rejected with the credentials error
  and never succeeds, and a token past its \<^verbatim>\<open>exp\<close> is rejected with the credentials error.
\<close>

theorem rotate_refresh_token_errors:
  "(isl (fst (rotate_refresh_token cfg now db body))
      \<longleftrightarrow> isl (fst (refresh_access_token cfg now db body)))
   \<and> (\<forall>e db'. rotate_refresh_token cfg now db body = (Inl e, db')
         \<longrightarrow> e = credentials_exception \<and> db' = db)
   \<and> (\<forall>p. jwt_decode (refresh_token body) (SECRET_KEY cfg) (ALGORITHM cfg) now = Inr p
          \<and> dict_get p ''token_type'' \<noteq> JStr ''refresh''
      \<longrightarrow> rotate_refresh_token cfg now db body = (Inl credentials_exception, db))
   \<and> (jwt_decode (refresh_token body) (SECRET_KEY cfg) (ALGORITHM cfg) now = Inl ExpiredSignatureError
      \<longrightarrow> rotate_refresh_token cfg now db body = (Inl credentials_exception, db))"
  by (auto simp: refresh_access_token_def rotate_refresh_token_def Let_def
      split: sum.splits jwt_error.splits option.splits)

text \<open>
  At time 2000 the live \<^verbatim>\<open>access\<close> token and the expired refresh token are both rejected
  with the credentials error, and \<^verbatim>\<open>refresh_access_token\<close> rejects the expired one too.
\<close>

theorem rotate_refresh_token_errors_witness:
  "rotate_refresh_token cfg0 2000 db0
      \<lparr>refresh_token = mk_token ''k'' (JStr ''a@x'') ''seller'' ''access'' 3000\<rparr>
     = (Inl credentials_exception, db0)
   \<and> rotate_refresh_token cfg0 2000 db0
      \<lparr>refresh_token = mk_token ''k'' (JStr ''a@x'') ''seller'' ''refresh'' 1000\<rparr>
     = (Inl credentials_exception, db0)
   \<and> isl (fst (refresh_access_token cfg0 2000 db0
      \<lparr>refresh_token = mk_token ''k'' (JStr ''a@x'') ''seller'' ''refresh'' 1000\<rparr>))"
proof -
  let ?dec = "\<lambda>t. jwt_decode t (SECRET_KEY cfg0) (ALGORITHM cfg0) 2000"
  let ?a = "mk_token ''k'' (JStr ''a@x'') ''seller'' ''access'' 3000"
  let ?x = "mk_token ''k'' (JStr ''a@x'') ''seller'' ''refresh'' 1000"
  note T = rotate_refresh_token_errors [where cfg = cfg0 and now = 2000 and db = db0]
  have d1: "?dec ?a = Inr (token_claims ?a)
            \<and> dict_get (token_claims ?a) ''token_type'' \<noteq> JStr ''refresh''"
    by (simp add: jwt_decode_def mk_token_def cfg0_def dict_get_def)
  have d2: "?dec ?x = Inl ExpiredSignatureError"
    by (simp add: jwt_decode_def mk_token_def cfg0_def)
  have r1: "rotate_refresh_token cfg0 2000 db0 \<lparr>refresh_token = ?a\<rparr>
              = (Inl credentials_exception, db0)"
    using T [of "\<lparr>refresh_token = ?a\<rparr>"] d1 by (simp del: token_claims.simps)
  have r2: "rotate_refresh_token cfg0 2000 db0 \<lparr>refresh_token = ?x\<rparr>
              = (Inl credentials_exception, db0)"
    using T [of "\<lparr>refresh_token = ?x\<rparr>"] d2 by simp
  have r3: "isl (fst (refresh_access_token cfg0 2000 db0 \<lparr>refresh_token = ?x\<rparr>))"
    using T [of "\<lparr>refresh_token = ?x\<rparr>"] by (simp add: r2)
  show ?thesis
    using r1 r2 r3 T [of "\<lparr>refresh_token = ?x\<rparr>"] by simp
qed

text \<open>
  C5, as stated, fails. It says that the \<^verbatim>\<open>exp\<close> of the token \<^verbatim>\<open>rotate_refresh_token\<close>
  returns is strictly later than the \<^verbatim>\<open>exp\<close> of the token presented. A login at time 1000
  issues a refresh token with \<^verbatim>\<open>exp\<close> 605800; rotating it at the same clock reading returns
  a token with \<^verbatim>\<open>exp\<close> 605800.
\<close>

theorem rotate_refresh_token_exp_counterexample:
  "new_token ''refresh_token'' (login kdf0 cfg0 1000 db0 \<lparr>username = ''a@x'', password = ''pw''\<rparr>)
     = Some refresh0
   \<and> token_exp refresh0 = Some 605800
   \<and> Option.bind (new_token ''refresh_token''
                    (rotate_refresh_token cfg0 1000 db0 \<lparr>refresh_token = refresh0\<rparr>)) token_exp
     = Some 605800"
  by (simp add: new_token_def login_def rotate_refresh_token_def refresh0_def
      create_refresh_token_def create_access_token_def jwt_encode_def jwt_decode_def
      cfg0_def token_data_def dict_get_def db0_def alice_def verify_password_def kdf0_def
      token_exp_def)

text \<open>
  C5, amended. A successful \<^verbatim>\<open>rotate_refresh_token\<close> returns a body with exactly the keys
  \<^verbatim>\<open>refresh_token\<close> and \<^verbatim>\<open>token_type\<close> (no access token), and the \<^verbatim>\<open>exp\<close> of the new
  token is the clock reading plus the configured refresh lifetime. Against a presented
  token that the issuer made at time \<open>t0\<close> under the same configuration, the new \<^verbatim>\<open>exp\<close> is
  strictly later exactly when the clock reading is later than \<open>t0\<close>, and equal exactly when
  it is \<open>t0\<close>.
\<close>

theorem rotate_refresh_token_exp:
  assumes "rotate_refresh_token cfg now db body = (Inr r, db')"
  shows "dom (content r) = {''refresh_token'', ''token_type''}
         \<and> content r ''access_token'' = None
         \<and> (\<exists>t. new_token ''refresh_token'' (rotate_refresh_token cfg now db body) = Some t
                \<and> token_exp t = Some (now + REFRESH_TOKEN_LIFETIME cfg)
                \<and> (\<forall>t0 data e. refresh_token body = create_refresh_token cfg t0 data
                       \<and> token_exp (refresh_token body) = Some e
                     \<longrightarrow> (e < now + REFRESH_TOKEN_LIFETIME cfg \<longleftrightarrow> t0 < now)
                         \<and> (e = now + REFRESH_TOKEN_LIFETIME cfg \<longleftrightarrow> t0 = now)))"
proof -
  from rotate_refresh_token_Inr [OF assms] obtain user where
    r: "r = \<lparr>status_code = 200,
             content = [''refresh_token'' \<mapsto> Tok (create_refresh_token cfg now (token_data user)),
                        ''token_type'' \<mapsto> Str ''bearer'']\<rparr>"
    by blast
  have dom: "dom (content r) = {''refresh_token'', ''token_type''}"
    by (simp add: r insert_commute)
  have none: "content r ''access_token'' = None"
    by (simp add: r)
  have tok: "new_token ''refresh_token'' (rotate_refresh_token cfg now db body)
               = Some (create_refresh_token cfg now (token_data user))"
    by (simp add: assms new_token_def r)
  have new: "token_exp (create_refresh_token cfg now (token_data user))
               = Some (now + REFRESH_TOKEN_LIFETIME cfg)"
    by (rule token_exp_create_refresh_token)
  have cmp: "\<forall>t0 data e. refresh_token body = create_refresh_token cfg t0 data
                       \<and> token_exp (refresh_token body) = Some e
                     \<longrightarrow> (e < now + REFRESH_TOKEN_LIFETIME cfg \<longleftrightarrow> t0 < now)
                         \<and> (e = now + REFRESH_TOKEN_LIFETIME cfg \<longleftrightarrow> t0 = now)"
  proof (intro allI impI)
    fix t0 data e
    assume a: "refresh_token body = create_refresh_token cfg t0 data
                 \<and> token_exp (refresh_token body) = Some e"
    from a have a1: "refresh_token body = create_refresh_token cfg t0 data"
      and a2: "token_exp (refresh_token body) = Some e"
      by (rule conjunct1, rule conjunct2)
    from a2 have "token_exp (create_refresh_token cfg t0 data) = Some e"
      unfolding a1 .
    then have "e = t0 + REFRESH_TOKEN_LIFETIME cfg"
      unfolding token_exp_create_refresh_token by simp
    then show "(e < now + REFRESH_TOKEN_LIFETIME cfg \<longleftrightarrow> t0 < now)
                 \<and> (e = now + REFRESH_TOKEN_LIFETIME cfg \<longleftrightarrow> t0 = now)"
      by simp
  qed
  from tok new cmp
  have ex: "\<exists>t. new_token ''refresh_token'' (rotate_refresh_token cfg now db body) = Some t
                \<and> token_exp t = Some (now + REFRESH_TOKEN_LIFETIME cfg)
                \<and> (\<forall>t0 data e. refresh_token body = create_refresh_token cfg t0 data
                       \<and> token_exp (refresh_token body) = Some e
                     \<longrightarrow> (e < now + REFRESH_TOKEN_LIFETIME cfg \<longleftrightarrow> t0 < now)
                         \<and> (e = now + REFRESH_TOKEN_LIFETIME cfg \<longleftrightarrow> t0 = now))"
    by (intro exI [of _ "create_refresh_token cfg now (token_data user)"] conjI)
  from dom none ex show ?thesis
    by (intro conjI)
qed

text \<open>
  Rotating at time 1001 the refresh token issued at time 1000: the old \<^verbatim>\<open>exp\<close> is 605800,
  the new one is 1001 plus the lifetime, which is later.
\<close>

theorem rotate_refresh_token_exp_witness:
  "rotate_refresh_token cfg0 1001 db0 \<lparr>refresh_token = refresh0\<rparr>
     = (Inr \<lparr>status_code = 200,
             content = [''refresh_token'' \<mapsto> Tok (create_refresh_token cfg0 1001 (token_data alice)),
                        ''token_type'' \<mapsto> Str ''bearer'']\<rparr>, db0)
   \<and> refresh0 = create_refresh_token cfg0 1000 (token_data alice)
   \<and> token_exp refresh0 = Some 605800
   \<and> (605800 < 1001 + REFRESH_TOKEN_LIFETIME cfg0 \<longleftrightarrow> (1000::int) < 1001)
   \<and> Option.bind (new_token ''refresh_token''
                    (rotate_refresh_token cfg0 1001 db0 \<lparr>refresh_token = refresh0\<rparr>)) token_exp
       = Some (1001 + REFRESH_TOKEN_LIFETIME cfg0)"
proof -
  let ?body = "\<lparr>refresh_token = refresh0\<rparr>"
  have h: "rotate_refresh_token cfg0 1001 db0 ?body
     = (Inr \<lparr>status_code = 200,
             content = [''refresh_token'' \<mapsto> Tok (create_refresh_token cfg0 1001 (token_data alice)),
                        ''token_type'' \<mapsto> Str ''bearer'']\<rparr>, db0)"
    by (simp add: rotate_refresh_token_def refresh0_def create_refresh_token_def jwt_encode_def
        jwt_decode_def cfg0_def token_data_def dict_get_def db0_def alice_def)
  have e: "token_exp refresh0 = Some 605800"
    by (simp add: token_exp_def refresh0_def create_refresh_token_def jwt_encode_def cfg0_def)
  have i: "refresh_token ?body = create_refresh_token cfg0 1000 (token_data alice)
           \<and> token_exp (refresh_token ?body) = Some 605800"
    by (simp add: e) (simp add: refresh0_def)
  from rotate_refresh_token_exp [OF h] obtain t where
    t: "new_token ''refresh_token'' (rotate_refresh_token cfg0 1001 db0 ?body) = Some t"
    and te: "token_exp t = Some (1001 + REFRESH_TOKEN_LIFETIME cfg0)"
    and cmp: "\<forall>t0 data e. refresh_token ?body = create_refresh_token cfg0 t0 data
                       \<and> token_exp (refresh_token ?body) = Some e
                     \<longrightarrow> (e < 1001 + REFRESH_TOKEN_LIFETIME cfg0 \<longleftrightarrow> t0 < 1001)
                         \<and> (e = 1001 + REFRESH_TOKEN_LIFETIME cfg0 \<longleftrightarrow> t0 = 1001)"
    by blast
  from cmp i have c: "605800 < 1001 + REFRESH_TOKEN_LIFETIME cfg0 \<longleftrightarrow> (1000::int) < 1001"
    by blast
  from t te have b: "Option.bind (new_token ''refresh_token''
                    (rotate_refresh_token cfg0 1001 db0 ?body)) token_exp
       = Some (1001 + REFRESH_TOKEN_LIFETIME cfg0)"
    by simp
  from h e c b show ?thesis
    by (simp add: refresh0_def)
qed

text \<open>
  C9. On every successful \<^verbatim>\<open>refresh_access_token\<close> or \<^verbatim>\<open>rotate_refresh_token\<close> call, the
  claims \<^verbatim>\<open>sub\<close>, \<^verbatim>\<open>role\<close> and \<^verbatim>\<open>id\<close> of the new token are the email, role and id of the
  row that the table holds for the presented token's subject (the first active row with
  that email), not the values in the presented token.
\<close>

theorem reissued_claims_from_store:
  "(refresh_access_token cfg now db body = (Inr r, db') \<longrightarrow>
      (\<exists>user t.
          find (\<lambda>u. JStr (UserModel.email u) = dict_get (token_claims (refresh_token body)) ''sub''
                    \<and> is_active u) db = Some user
          \<and> new_token ''access_token'' (refresh_access_token cfg now db body) = Some t
          \<and> token_claims t ''sub'' = Some (JStr (UserModel.email user))
          \<and> token_claims t ''role'' = Some (JStr (UserModel.role user))
          \<and> token_claims t ''id'' = Some (JInt (id_pk user))))
   \<and> (rotate_refresh_token cfg now db body = (Inr r, db') \<longrightarrow>
      (\<exists>user t.
          find (\<lambda>u. JStr (UserModel.email u) = dict_get (token_claims (refresh_token body)) ''sub''
                    \<and> is_active u) db = Some user
          \<and> new_token ''refresh_token'' (rotate_refresh_token cfg now db body) = Some t
          \<and> token_claims t ''sub'' = Some (JStr (UserModel.email user))
          \<and> token_claims t ''role'' = Some (JStr (UserModel.role user))
          \<and> token_claims t ''id'' = Some (JInt (id_pk user))))"
proof (intro conjI impI)
  assume a: "refresh_access_token cfg now db body = (Inr r, db')"
  from refresh_access_token_Inr [OF a] obtain p user where
    dec: "jwt_decode (refresh_token body) (SECRET_KEY cfg) (ALGORITHM cfg) now = Inr p"
    and sel: "find (\<lambda>u. JStr (UserModel.email u) = dict_get p ''sub'' \<and> is_active u) db = Some user"
    and r: "r = \<lparr>status_code = 200,
                 content = [''access_token'' \<mapsto> Tok (create_access_token cfg now (token_data user)),
                            ''token_type'' \<mapsto> Str ''bearer'']\<rparr>"
    by blast
  from jwt_decode_Inr [OF dec] have p: "token_claims (refresh_token body) = p"
    by simp
  have t: "new_token ''access_token'' (refresh_access_token cfg now db body)
             = Some (create_access_token cfg now (token_data user))"
    by (simp add: a new_token_def r)
  from sel p t token_claims_create_access_token [of cfg now user]
  show "\<exists>user t.
          find (\<lambda>u. JStr (UserModel.email u) = dict_get (token_claims (refresh_token body)) ''sub''
                    \<and> is_active u) db = Some user
          \<and> new_token ''access_token'' (refresh_access_token cfg now db body) = Some t
          \<and> token_claims t ''sub'' = Some (JStr (UserModel.email user))
          \<and> token_claims t ''role'' = Some (JStr (UserModel.role user))
          \<and> token_claims t ''id'' = Some (JInt (id_pk user))"
    by (intro exI [of _ user] exI [of _ "create_access_token cfg now (token_data user)"]) simp
next
  assume a: "rotate_refresh_token cfg now db body = (Inr r, db')"
  from rotate_refresh_token_Inr [OF a] obtain p user where
    dec: "jwt_decode (refresh_token body) (SECRET_KEY cfg) (ALGORITHM cfg) now = Inr p"
    and sel: "find (\<lambda>u. JStr (UserModel.email u) = dict_get p ''sub'' \<and> is_active u) db = Some user"
    and r: "r = \<lparr>status_code = 200,
                 content = [''refresh_token'' \<mapsto> Tok (create_refresh_token cfg now (token_data user)),
                            ''token_type'' \<mapsto> Str ''bearer'']\<rparr>"
    by blast
  from jwt_decode_Inr [OF dec] have p: "token_claims (refresh_token body) = p"
    by simp
  have t: "new_token ''refresh_token'' (rotate_refresh_token cfg now db body)
             = Some (create_refresh_token cfg now (token_data user))"
    by (simp add: a new_token_def r)
  from sel p t token_claims_create_refresh_token [of cfg now user]
  show "\<exists>user t.
          find (\<lambda>u. JStr (UserModel.email u) = dict_get (token_claims (refresh_token body)) ''sub''
                    \<and> is_active u) db = Some user
          \<and> new_token ''refresh_token'' (rotate_refresh_token cfg now db body) = Some t
          \<and> token_claims t ''sub'' = Some (JStr (UserModel.email user))
          \<and> token_claims t ''role'' = Some (JStr (UserModel.role user))
          \<and> token_claims t ''id'' = Some (JInt (id_pk user))"
    by (intro exI [of _ user] exI [of _ "create_refresh_token cfg now (token_data user)"]) simp
qed

text \<open>
  A refresh token that says role \<^verbatim>\<open>buyer\<close> and id 1 for the subject whose row says
  \<^verbatim>\<open>seller\<close> and 7: both handlers issue a token with \<^verbatim>\<open>seller\<close> and 7.
\<close>

theorem reissued_claims_from_store_witness:
  "token_claims (mk_token ''k'' (JStr ''a@x'') ''buyer'' ''refresh'' 3000) ''role'' = Some (JStr ''buyer'')
   \<and> token_claims (mk_token ''k'' (JStr ''a@x'') ''buyer'' ''refresh'' 3000) ''id'' = Some (JInt 1)
   \<and> (\<exists>t. new_token ''access_token''
             (refresh_access_token cfg0 2000 db0
                \<lparr>refresh_token = mk_token ''k'' (JStr ''a@x'') ''buyer'' ''refresh'' 3000\<rparr>) = Some t
          \<and> token_claims t ''sub'' = Some (JStr ''a@x'')
          \<and> token_claims t ''role'' = Some (JStr ''seller'')
          \<and> token_claims t ''id'' = Some (JInt 7))
   \<and> (\<exists>t. new_token ''refresh_token''
             (rotate_refresh_token cfg0 2000 db0
                \<lparr>refresh_token = mk_token ''k'' (JStr ''a@x'') ''buyer'' ''refresh'' 3000\<rparr>) = Some t
          \<and> token_claims t ''sub'' = Some (JStr ''a@x'')
          \<and> token_claims t ''role'' = Some (JStr ''seller'')
          \<and> token_claims t ''id'' = Some (JInt 7))"
proof -
  let ?tok = "mk_token ''k'' (JStr ''a@x'') ''buyer'' ''refresh'' 3000"
  let ?body = "\<lparr>refresh_token = ?tok\<rparr>"
  have h1: "refresh_access_token cfg0 2000 db0 ?body
     = (Inr \<lparr>status_code = 200,
             content = [''access_token'' \<mapsto> Tok (create_access_token cfg0 2000 (token_data alice)),
                        ''token_type'' \<mapsto> Str ''bearer'']\<rparr>, db0)"
    by (simp add: refresh_access_token_def mk_token_def jwt_decode_def cfg0_def dict_get_def
        db0_def alice_def)
  have h2: "rotate_refresh_token cfg0 2000 db0 ?body
     = (Inr \<lparr>status_code = 200,
             content = [''refresh_token'' \<mapsto> Tok (create_refresh_token cfg0 2000 (token_data alice)),
                        ''token_type'' \<mapsto> Str ''bearer'']\<rparr>, db0)"
    by (simp add: rotate_refresh_token_def mk_token_def jwt_decode_def cfg0_def dict_get_def
        db0_def alice_def)
  have sel: "find (\<lambda>u. JStr (UserModel.email u) = dict_get (token_claims (refresh_token ?body)) ''sub''
                    \<and> is_active u) db0 = Some alice"
    by (simp add: mk_token_def dict_get_def db0_def alice_def)
  have old: "token_claims ?tok ''role'' = Some (JStr ''buyer'') \<and> token_claims ?tok ''id'' = Some (JInt 1)"
    by (simp add: mk_token_def)
  have al: "UserModel.email alice = ''a@x'' \<and> UserModel.role alice = ''seller'' \<and> id_pk alice = 7"
    by (simp add: alice_def)
  note T = reissued_claims_from_store [where cfg = cfg0 and now = 2000 and db = db0
      and body = ?body and db' = db0]
  from T [THEN conjunct1, rule_format, OF h1] sel al
  have c1: "\<exists>t. new_token ''access_token'' (refresh_access_token cfg0 2000 db0 ?body) = Some t
          \<and> token_claims t ''sub'' = Some (JStr ''a@x'')
          \<and> token_claims t ''role'' = Some (JStr ''seller'')
          \<and> token_claims t ''id'' = Some (JInt 7)"
    by (elim exE conjE) (simp del: token_claims.simps)
  from T [THEN conjunct2, rule_format, OF h2] sel al
  have c2: "\<exists>t. new_token ''refresh_token'' (rotate_refresh_token cfg0 2000 db0 ?body) = Some t
          \<and> token_claims t ''sub'' = Some (JStr ''a@x'')
          \<and> token_claims t ''role'' = Some (JStr ''seller'')
          \<and> token_claims t ''id'' = Some (JInt 7)"
    by (elim exE conjE) (simp del: token_claims.simps)
  from old c1 c2 show ?thesis
    by (intro conjI) simp_all
qed

section \<open>Login\<close>

text \<open>
  C3. The three failure causes of \<^verbatim>\<open>login\<close> give one and the same outcome: when no row has
  the given email, when no row with the given email has a hash that the password verifies
  against, and when every row with the given email and a matching password is inactive, the
  handler raises \<open>login_exception\<close>, which is the 401 with detail "Incorrect email or
  password" and the header \<^verbatim>\<open>WWW-Authenticate: Bearer\<close>. Every failure of \<^verbatim>\<open>login\<close> is that
  exception, and the table is left as it was.
\<close>

theorem login_failures_indistinguishable:
  "((\<forall>u\<in>set db. UserModel.email u \<noteq> username form_data)
      \<longrightarrow> login kdf cfg now db form_data = (Inl login_exception, db))
   \<and> ((\<forall>u\<in>set db. UserModel.email u = username form_data
          \<longrightarrow> \<not> verify_password kdf (OAuth2PasswordRequestForm.password form_data)
                 (hashed_password u))
      \<longrightarrow> login kdf cfg now db form_data = (Inl login_exception, db))
   \<and> ((\<forall>u\<in>set db. UserModel.email u = username form_data
            \<and> verify_password kdf (OAuth2PasswordRequestForm.password form_data)
                 (hashed_password u)
          \<longrightarrow> \<not> is_active u)
      \<longrightarrow> login kdf cfg now db form_data = (Inl login_exception, db))
   \<and> (\<forall>e db'. login kdf cfg now db form_data = (Inl e, db')
          \<longrightarrow> e = login_exception \<and> db' = db)
   \<and> login_exception
        = HTTPException 401 ''Incorrect email or password'' [(''WWW-Authenticate'', ''Bearer'')]"
proof -
  have sel: "u \<in> set db \<and> UserModel.email u = username form_data \<and> is_active u"
    if "find (\<lambda>u. UserModel.email u = username form_data \<and> is_active u) db = Some u" for u
    using that by (auto simp: find_Some_iff)
  show ?thesis
    unfolding login_def
    by (auto simp: Let_def login_exception_def split: option.splits dest: sel)
qed

text \<open>
  An unknown email, the seller with a wrong password, and the deactivated buyer with the
  right password get the same outcome.
\<close>

theorem login_failures_indistinguishable_witness:
  "login kdf0 cfg0 1000 db0 \<lparr>username = ''z@x'', password = ''pw''\<rparr> = (Inl login_exception, db0)
   \<and> login kdf0 cfg0 1000 db0 \<lparr>username = ''a@x'', password = ''wrong''\<rparr>
       = (Inl login_exception, db0)
   \<and> login kdf0 cfg0 1000 db0 \<lparr>username = ''b@x'', password = ''pw''\<rparr> = (Inl login_exception, db0)"
proof -
  note T = login_failures_indistinguishable [where kdf = kdf0 and cfg = cfg0 and now = 1000 and db = db0]
  have h1: "\<forall>u\<in>set db0. UserModel.email u \<noteq> username \<lparr>username = ''z@x'', password = ''pw''\<rparr>"
    by (simp add: db0_def alice_def bob_def)
  have h2: "\<forall>u\<in>set db0. UserModel.email u = username \<lparr>username = ''a@x'', password = ''wrong''\<rparr>
          \<longrightarrow> \<not> verify_password kdf0
                 (OAuth2PasswordRequestForm.password \<lparr>username = ''a@x'', password = ''wrong''\<rparr>)
                 (hashed_password u)"
    by (simp add: db0_def alice_def bob_def verify_password_def kdf0_def)
  have h3: "\<forall>u\<in>set db0. UserModel.email u = username \<lparr>username = ''b@x'', password = ''pw''\<rparr>
            \<and> verify_password kdf0
                 (OAuth2PasswordRequestForm.password \<lparr>username = ''b@x'', password = ''pw''\<rparr>)
                 (hashed_password u)
          \<longrightarrow> \<not> is_active u"
    by (simp add: db0_def alice_def bob_def verify_password_def kdf0_def)
  have v3: "verify_password kdf0 ''pw'' (hashed_password bob)"
    by (simp add: bob_def verify_password_def kdf0_def)
  show ?thesis
    using T [of "\<lparr>username = ''z@x'', password = ''pw''\<rparr>"] h1
          T [of "\<lparr>username = ''a@x'', password = ''wrong''\<rparr>"] h2
          T [of "\<lparr>username = ''b@x'', password = ''pw''\<rparr>"] h3
    by blast
qed

text \<open>
  C6. When the query of \<^verbatim>\<open>login\<close> (email and \<^verbatim>\<open>is_active\<close>) returns a row and the password
  verifies against that row's hash, \<^verbatim>\<open>login\<close> returns status 200 with a body of
  \<^verbatim>\<open>access_token\<close>, \<^verbatim>\<open>refresh_token\<close> and \<^verbatim>\<open>token_type\<close> equal to \<^verbatim>\<open>"bearer"\<close>; both tokens
  carry the row's email as \<^verbatim>\<open>sub\<close> together with its role and id, and their types are
  \<^verbatim>\<open>access\<close> and \<^verbatim>\<open>refresh\<close>.
\<close>

theorem login_success:
  assumes "find (\<lambda>u. UserModel.email u = username form_data \<and> is_active u) db = Some user"
    and "verify_password kdf (OAuth2PasswordRequestForm.password form_data) (hashed_password user)"
  shows "login kdf cfg now db form_data
           = (Inr \<lparr>status_code = 200,
                   content = [''access_token'' \<mapsto> Tok (create_access_token cfg now (token_data user)),
                              ''refresh_token'' \<mapsto> Tok (create_refresh_token cfg now (token_data user)),
                              ''token_type'' \<mapsto> Str ''bearer'']\<rparr>, db)
         \<and> (\<forall>t\<in>{create_access_token cfg now (token_data user),
                  create_refresh_token cfg now (token_data user)}.
               token_claims t ''sub'' = Some (JStr (UserModel.email user))
               \<and> token_claims t ''role'' = Some (JStr (UserModel.role user))
               \<and> token_claims t ''id'' = Some (JInt (id_pk user)))
         \<and> token_claims (create_access_token cfg now (token_data user)) ''token_type''
             = Some (JStr ''access'')
         \<and> token_claims (create_refresh_token cfg now (token_data user)) ''token_type''
             = Some (JStr ''refresh'')"
proof -
  have "login kdf cfg now db form_data
           = (Inr \<lparr>status_code = 200,
                   content = [''access_token'' \<mapsto> Tok (create_access_token cfg now (token_data user)),
                              ''refresh_token'' \<mapsto> Tok (create_refresh_token cfg now (token_data user)),
                              ''token_type'' \<mapsto> Str ''bearer'']\<rparr>, db)"
    using assms by (simp add: login_def Let_def)
  then show ?thesis
    by (simp add: create_access_token_def create_refresh_token_def jwt_encode_def token_data_def)
qed

text \<open>The seller logs in at time 1000 with the right password.\<close>

theorem login_success_witness:
  "find (\<lambda>u. UserModel.email u = ''a@x'' \<and> is_active u) db0 = Some alice
   \<and> verify_password kdf0 ''pw'' (hashed_password alice)
   \<and> login kdf0 cfg0 1000 db0 \<lparr>username = ''a@x'', password = ''pw''\<rparr>
       = (Inr \<lparr>status_code = 200,
               content = [''access_token'' \<mapsto> Tok (create_access_token cfg0 1000 (token_data alice)),
                          ''refresh_token'' \<mapsto> Tok refresh0,
                          ''token_type'' \<mapsto> Str ''bearer'']\<rparr>, db0)
   \<and> token_claims (create_access_token cfg0 1000 (token_data alice)) ''sub'' = Some (JStr ''a@x'')
   \<and> token_claims refresh0 ''sub'' = Some (JStr ''a@x'')
   \<and> token_claims (create_access_token cfg0 1000 (token_data alice)) ''role'' = Some (JStr ''seller'')
   \<and> token_claims refresh0 ''role'' = Some (JStr ''seller'')
   \<and> token_claims (create_access_token cfg0 1000 (token_data alice)) ''id'' = Some (JInt 7)
   \<and> token_claims refresh0 ''id'' = Some (JInt 7)"
proof -
  have h1: "find (\<lambda>u. UserModel.email u = username \<lparr>username = ''a@x'', password = ''pw''\<rparr>
                    \<and> is_active u) db0 = Some alice"
    by (simp add: db0_def alice_def)
  have h2: "verify_password kdf0
              (OAuth2PasswordRequestForm.password \<lparr>username = ''a@x'', password = ''pw''\<rparr>)
              (hashed_password alice)"
    by (simp add: alice_def verify_password_def kdf0_def)
  have a: "UserModel.email alice = ''a@x'' \<and> UserModel.role alice = ''seller'' \<and> id_pk alice = 7"
    by (simp add: alice_def)
  show ?thesis
    using login_success [OF h1 h2, of cfg0 1000] h1 h2 a
    by (simp add: refresh0_def)
qed

section \<open>Registration\<close>

text \<open>
  C7. \<^verbatim>\<open>create_user\<close> raises 409 whenever a row with the given email is stored, and then
  leaves the table as it was. Otherwise it returns status 201 and appends exactly one row,
  the one it returns, whose email and role are the submitted ones and whose stored password
  is the hash of the submitted plaintext.
\<close>

theorem create_user_conflict_or_insert:
  "((\<exists>u\<in>set db. UserModel.email u = UserCreate.email user)
      \<longrightarrow> create_user kdf env db user
            = (Inl (HTTPException 409 ''Email already registered'' []), db))
   \<and> ((\<forall>u\<in>set db. UserModel.email u \<noteq> UserCreate.email user)
      \<longrightarrow> (\<exists>row. create_user kdf env db user = (Inr \<lparr>status_code = 201, content = row\<rparr>, db @ [row])
                 \<and> UserModel.email row = UserCreate.email user
                 \<and> hashed_password row = hash_password kdf (salt env) (UserCreate.password user)
                 \<and> UserModel.role row = UserCreate.role user))"
proof (cases "find (\<lambda>u. UserModel.email u = UserCreate.email user) db")
  case None
  then have "\<forall>u\<in>set db. UserModel.email u \<noteq> UserCreate.email user"
    by (auto simp: find_None_iff)
  with None show ?thesis
    by (auto simp: create_user_def Let_def)
next
  case (Some u)
  then have "\<exists>u\<in>set db. UserModel.email u = UserCreate.email user"
    by (auto simp: find_Some_iff)
  with Some show ?thesis
    by (auto simp: create_user_def)
qed

text \<open>Registering the seller's email again, and registering a new email.\<close>

theorem create_user_conflict_or_insert_witness:
  "create_user kdf0 \<lparr>salt = ''s3'', new_id = 8, default_is_active = True\<rparr> db0
      \<lparr>UserCreate.email = ''a@x'', UserCreate.password = ''pw3'', UserCreate.role = ''buyer''\<rparr>
     = (Inl (HTTPException 409 ''Email already registered'' []), db0)
   \<and> (\<exists>row. create_user kdf0 \<lparr>salt = ''s3'', new_id = 8, default_is_active = True\<rparr> db0
               \<lparr>UserCreate.email = ''c@x'', UserCreate.password = ''pw3'', UserCreate.role = ''buyer''\<rparr>
              = (Inr \<lparr>status_code = 201, content = row\<rparr>, db0 @ [row])
            \<and> UserModel.email row = ''c@x''
            \<and> hashed_password row = Hashed ''s3'' ''s3pw3''
            \<and> UserModel.role row = ''buyer'')"
proof -
  let ?env = "\<lparr>salt = ''s3'', new_id = 8, default_is_active = True\<rparr>"
  let ?dup = "\<lparr>UserCreate.email = ''a@x'', UserCreate.password = ''pw3'', UserCreate.role = ''buyer''\<rparr>"
  let ?new = "\<lparr>UserCreate.email = ''c@x'', UserCreate.password = ''pw3'', UserCreate.role = ''buyer''\<rparr>"
  have h1: "\<exists>u\<in>set db0. UserModel.email u = UserCreate.email ?dup"
    by (simp add: db0_def alice_def)
  have h2: "\<forall>u\<in>set db0. UserModel.email u \<noteq> UserCreate.email ?new"
    by (simp add: db0_def alice_def bob_def)
  have hp: "hash_password kdf0 (salt ?env) (UserCreate.password ?new) = Hashed ''s3'' ''s3pw3''"
    by (simp add: hash_password_def kdf0_def)
  from create_user_conflict_or_insert [of db0 ?dup kdf0 ?env] h1
  have r1: "create_user kdf0 ?env db0 ?dup = (Inl (HTTPException 409 ''Email already registered'' []), db0)"
    by blast
  from create_user_conflict_or_insert [of db0 ?new kdf0 ?env] h2
  have r2: "\<exists>row. create_user kdf0 ?env db0 ?new = (Inr \<lparr>status_code = 201, content = row\<rparr>, db0 @ [row])
                 \<and> UserModel.email row = UserCreate.email ?new
                 \<and> hashed_password row = hash_password kdf0 (salt ?env) (UserCreate.password ?new)
                 \<and> UserModel.role row = UserCreate.role ?new"
    by blast
  from r1 r2 show ?thesis
    unfolding hp by simp
qed

text \<open>
  C10. The duplicate check of \<^verbatim>\<open>create_user\<close> does not look at \<^verbatim>\<open>is_active\<close>: registering
  the email of a deactivated row raises 409 and leaves the table as it was.
\<close>

theorem create_user_conflict_ignores_is_active:
  assumes "u \<in> set db" and "UserModel.email u = UserCreate.email user" and "\<not> is_active u"
  shows "create_user kdf env db user
           = (Inl (HTTPException 409 ''Email already registered'' []), db)"
proof (cases "find (\<lambda>u. UserModel.email u = UserCreate.email user) db")
  case None
  with assms(1,2) show ?thesis
    by (auto simp: find_None_iff)
next
  case (Some v)
  then show ?thesis
    by (simp add: create_user_def)
qed

text \<open>
  The deactivated buyer: registering the email again is a conflict, while a login with that
  email and the right password is rejected.
\<close>

theorem create_user_conflict_ignores_is_active_witness:
  "bob \<in> set db0 \<and> \<not> is_active bob
   \<and> create_user kdf0 \<lparr>salt = ''s3'', new_id = 8, default_is_active = True\<rparr> db0
        \<lparr>UserCreate.email = ''b@x'', UserCreate.password = ''pw3'', UserCreate.role = ''buyer''\<rparr>
       = (Inl (HTTPException 409 ''Email already registered'' []), db0)
   \<and> login kdf0 cfg0 1000 db0 \<lparr>username = ''b@x'', password = ''pw''\<rparr> = (Inl login_exception, db0)"
proof -
  have h1: "bob \<in> set db0" by (simp add: db0_def)
  have h2: "UserModel.email bob
              = UserCreate.email \<lparr>UserCreate.email = ''b@x'', UserCreate.password = ''pw3'', UserCreate.role = ''buyer''\<rparr>"
    by (simp add: bob_def)
  have h3: "\<not> is_active bob" by (simp add: bob_def)
  have l: "login kdf0 cfg0 1000 db0 \<lparr>username = ''b@x'', password = ''pw''\<rparr> = (Inl login_exception, db0)"
    by (simp add: login_def db0_def alice_def bob_def)
  show ?thesis
    using create_user_conflict_ignores_is_active [OF h1 h2 h3] h1 h3 l by simp
qed

section \<open>Credential Hasher\<close>

text \<open>
  C8. For every plaintext \<open>p\<close> and salt \<open>s\<close>, \<^verbatim>\<open>verify(p, hash(p))\<close> is true. For every
  plaintext \<open>q\<close>, \<^verbatim>\<open>verify(q, hash(p))\<close> is true iff \<open>q\<close> re-hashes to the digest of \<open>p\<close>
  under the stored salt, so it is false for every \<open>q\<close> whose digest differs; against any
  well-formed hash string, verification is true iff the plaintext re-hashes to the stored
  digest under the stored salt, and against a malformed one it is false.
\<close>

theorem verify_password_hash_password:
  "verify_password kdf p (hash_password kdf s p)
   \<and> (verify_password kdf q (hash_password kdf s p) \<longleftrightarrow> kdf s q = kdf s p)
   \<and> (verify_password kdf q (Hashed s d) \<longleftrightarrow> kdf s q = d)
   \<and> \<not> verify_password kdf q (MalformedHash m)"
  by (simp add: verify_password_def hash_password_def)

text \<open>With the toy digest: the right password verifies, another one does not.\<close>

theorem verify_password_hash_password_witness:
  "verify_password kdf0 ''pw'' (hash_password kdf0 ''s1'' ''pw'')
   \<and> kdf0 ''s1'' ''wrong'' \<noteq> kdf0 ''s1'' ''pw''
   \<and> \<not> verify_password kdf0 ''wrong'' (hash_password kdf0 ''s1'' ''pw'')
   \<and> \<not> verify_password kdf0 ''pw'' (MalformedHash ''s1pw'')"
proof -
  have k: "kdf0 ''s1'' ''wrong'' \<noteq> kdf0 ''s1'' ''pw''"
    by (simp add: kdf0_def)
  from verify_password_hash_password [of kdf0 "''pw''" "''s1''" "''wrong''" "''d''" "''m''"]
       verify_password_hash_password [of kdf0 "''pw''" "''s1''" "''pw''" "''d''" "''s1pw''"] k
  show ?thesis by blast
qed

end
